theory Spec2Isabelle
  imports Complex_Main
begin

section \<open>Relationship strength scoring: data model\<close>

text \<open>
  The scorer of \<^verbatim>\<open>src/scoring/relationship_scorer.py\<close> reads four tables of an SQLite
  store. A table is a list of rows, in storage order. A stored number is the number that
  the column holds, written as integer or as text; Python integers are \<open>int\<close>. A timestamp
  is the number of seconds on the time line that the stored ISO-8601 text denotes, so that
  the \<^verbatim>\<open>.days\<close> of a difference of two \<^verbatim>\<open>datetime\<close>s is the floor division of the
  difference by 86400. NULL appears where the code tests for it (the first-seen time of a
  relationship), where its test misses it (the creation time of an account), where a LEFT
  JOIN finds no partner and where \<^verbatim>\<open>NULLIF\<close> produces it. The pair of addresses is the key
  of a relationship and the address is the key of an account and of a metrics row: a query
  for a key reads the first row that has it.
\<close>

type_synonym address = string
type_synonym timestamp = int

record account =
  address :: address
  balance :: real
  created_at :: "timestamp option"

record transfer =
  t_from_address :: address
  t_to_address :: address
  t_value :: int
  t_timestamp :: timestamp

record relationship =
  ar_from_address :: address
  ar_to_address :: address
  total_volume :: real
  transfer_count :: int
  ar_created_at :: "timestamp option"

record network_metrics =
  nm_address :: address
  degree_centrality :: real
  betweenness_centrality :: real
  closeness_centrality :: real
  clustering_coefficient :: real
  pagerank :: real
  common_neighbors_avg :: real
  updated_at :: timestamp

record store =
  accounts :: "account list"
  transfers :: "transfer list"
  account_relationships :: "relationship list"
  account_network_metrics :: "network_metrics list"

text \<open>The values of the breakdown dictionaries; a dictionary keeps its insertion order.\<close>

datatype pyval = Num real | Boolean bool | Dict "(string \<times> pyval) list"

type_synonym details = "(string \<times> pyval) list"

record RelationshipScore =
  from_address :: address
  to_address :: address
  volume_score :: real
  frequency_score :: real
  temporal_score :: real
  network_score :: real
  risk_score :: real
  total_score :: real
  details :: details

text \<open>The exceptions that reach the caller.\<close>

datatype error = OperationalError | PowerIterationFailedConvergence | TypeError

text \<open>The two clocks the temporal scorer reads: \<^verbatim>\<open>datetime.now()\<close> (local time) in
  Python and \<^verbatim>\<open>datetime('now')\<close> (UTC) inside the query.\<close>

record clock =
  local_now :: timestamp
  utc_now :: timestamp

text \<open>Where a stored number becomes a double, and where a decision is taken on doubles,
  the value is the library's and a parameter of the model: Python's \<^verbatim>\<open>float(x)\<close>,
  SQLite's \<^verbatim>\<open>CAST(x AS REAL)\<close> (the two do not agree on every stored number), the
  quotient of a double by an integer, which Python and SQLite both compute by the division
  of doubles, and the double that SQLite computes for
  \<^verbatim>\<open>ABS(julianday(t2) - julianday(t1)) * 24 * 60\<close> from the timestamps \<open>t1\<close> and \<open>t2\<close>. A
  column holds its numbers in one storage class, so that each conversion is a function of
  the number. The other arithmetic of the scorers is exact.\<close>

record numerics =
  py_float :: "real \<Rightarrow> real"
  sql_real :: "real \<Rightarrow> real"
  fdiv :: "real \<Rightarrow> int \<Rightarrow> real"
  gap_minutes :: "timestamp \<Rightarrow> timestamp \<Rightarrow> real"

definition day :: int where
  "day = 86400"

text \<open>\<^verbatim>\<open>(x - y).days\<close> of two datetimes.\<close>

definition days_between :: "timestamp \<Rightarrow> timestamp \<Rightarrow> int" where
  "days_between x y = (x - y) div day"

text \<open>\<^verbatim>\<open>cursor.fetchone()\<close> of the query for the row of a pair.\<close>

definition relationship_row :: "store \<Rightarrow> address \<Rightarrow> address \<Rightarrow> relationship option" where
  "relationship_row s from_addr to_addr =
     find (\<lambda>ar. ar_from_address ar = from_addr \<and> ar_to_address ar = to_addr)
       (account_relationships s)"

definition account_row :: "store \<Rightarrow> address \<Rightarrow> account option" where
  "account_row s addr = find (\<lambda>a. address a = addr) (accounts s)"

text \<open>The transfers that the JOIN on both addresses attaches to the row of a pair.\<close>

definition pair_transfers :: "store \<Rightarrow> address \<Rightarrow> address \<Rightarrow> transfer list" where
  "pair_transfers s from_addr to_addr =
     filter (\<lambda>t. t_from_address t = from_addr \<and> t_to_address t = to_addr) (transfers s)"

section \<open>Composite aggregator\<close>

definition weights :: details where
  "weights = [(''volume'', Num 0.25), (''frequency'', Num 0.25),
              (''temporal'', Num 0.20), (''network'', Num 0.30)]"

definition base_score :: "real \<Rightarrow> real \<Rightarrow> real \<Rightarrow> real \<Rightarrow> real" where
  "base_score vs fs ts ns = vs * 0.25 + fs * 0.25 + ts * 0.20 + ns * 0.30"

definition risk_multiplier :: "real \<Rightarrow> real" where
  "risk_multiplier rs = 1 - rs / 200"

text \<open>Lines 394 to 435 of \<^verbatim>\<open>calculate_total_score\<close>: what the aggregator makes of the
  five results once every scorer has returned. Python's \<^verbatim>\<open>round(x, 2)\<close> rounds the
  double that it is given, and is the parameter \<open>round2\<close>.\<close>

definition combine_scores ::
  "(real \<Rightarrow> real) \<Rightarrow> address \<Rightarrow> address \<Rightarrow> real \<times> details \<Rightarrow> real \<times> details \<Rightarrow>
   real \<times> details \<Rightarrow> real \<times> details \<Rightarrow> real \<times> details \<Rightarrow> RelationshipScore" where
  "combine_scores round2 from_addr to_addr v f t n r =
     (let b = base_score (fst v) (fst f) (fst t) (fst n);
          m = risk_multiplier (fst r)
      in \<lparr> from_address = from_addr, to_address = to_addr,
           volume_score = fst v, frequency_score = fst f, temporal_score = fst t,
           network_score = fst n, risk_score = fst r,
           total_score = round2 (b * m),
           details = [(''volume'', Dict (snd v)), (''frequency'', Dict (snd f)),
                      (''temporal'', Dict (snd t)), (''network'', Dict (snd n)),
                      (''risk'', Dict (snd r)), (''weights'', Dict weights),
                      (''base_score'', Num b), (''risk_multiplier'', Num m)] \<rparr>)"

section \<open>Volume scorer\<close>

text \<open>The scorer reads the volume of the row with \<^verbatim>\<open>float\<close>. The percentile query scans
  every row of \<^verbatim>\<open>account_relationships\<close> and compares \<^verbatim>\<open>CAST(total_volume AS REAL)\<close>
  with the double that the scorer binds. The average size of a row is that cast over
  \<^verbatim>\<open>NULLIF(transfer_count, 0)\<close>: NULL for a row that counts no transfer, and a comparison
  with NULL selects the \<^verbatim>\<open>ELSE 0\<close> branch. The sums are NULL on an empty table, which the
  scorer never sees: it runs the percentile query only after it has found the row of the
  pair. On a column that is not NULL, \<^verbatim>\<open>row['transfer_count'] or 0\<close> is the stored
  value, and \<^verbatim>\<open>float(row['total_volume'] or 0)\<close> is the float of the stored value.\<close>

definition total_relationships :: "store \<Rightarrow> nat" where
  "total_relationships s = max (length (account_relationships s)) 1"

definition volume_rank :: "numerics \<Rightarrow> store \<Rightarrow> real \<Rightarrow> nat" where
  "volume_rank num s x =
     length (filter (\<lambda>ar. sql_real num (total_volume ar) < x) (account_relationships s))"

definition avg_size_rank :: "numerics \<Rightarrow> store \<Rightarrow> real \<Rightarrow> nat" where
  "avg_size_rank num s x =
     length (filter (\<lambda>ar. transfer_count ar \<noteq> 0 \<and>
                          fdiv num (sql_real num (total_volume ar)) (transfer_count ar) < x)
               (account_relationships s))"

definition volume_percentile :: "numerics \<Rightarrow> store \<Rightarrow> real \<Rightarrow> real" where
  "volume_percentile num s x = real (volume_rank num s x) / real (total_relationships s)"

definition avg_size_percentile :: "numerics \<Rightarrow> store \<Rightarrow> real \<Rightarrow> real" where
  "avg_size_percentile num s x = real (avg_size_rank num s x) / real (total_relationships s)"

definition avg_transfer_size :: "numerics \<Rightarrow> relationship \<Rightarrow> real" where
  "avg_transfer_size num row =
     fdiv num (py_float num (total_volume row)) (max (transfer_count row) 1)"

text \<open>The sender's balance through the LEFT JOIN, NULL read as 0.\<close>

definition sender_balance :: "numerics \<Rightarrow> store \<Rightarrow> address \<Rightarrow> real" where
  "sender_balance num s from_addr =
     (case account_row s from_addr of None \<Rightarrow> 0 | Some a \<Rightarrow> py_float num (balance a))"

definition volume_component :: "numerics \<Rightarrow> store \<Rightarrow> relationship \<Rightarrow> real" where
  "volume_component num s row =
     min 40 (volume_percentile num s (py_float num (total_volume row)) * 40)"

definition avg_size_component :: "numerics \<Rightarrow> store \<Rightarrow> relationship \<Rightarrow> real" where
  "avg_size_component num s row =
     min 30 (avg_size_percentile num s (avg_transfer_size num row) * 30)"

definition relative_volume_component ::
  "numerics \<Rightarrow> store \<Rightarrow> address \<Rightarrow> relationship \<Rightarrow> real" where
  "relative_volume_component num s from_addr row =
     (if sender_balance num s from_addr > 0
      then min 30 ((py_float num (total_volume row) / sender_balance num s from_addr) * 100)
      else 15)"

definition calculate_volume_score ::
  "numerics \<Rightarrow> store \<Rightarrow> address \<Rightarrow> address \<Rightarrow> real \<times> details" where
  "calculate_volume_score num s from_addr to_addr =
     (case relationship_row s from_addr to_addr of
        None \<Rightarrow> (0, [])
      | Some row \<Rightarrow>
          (min 100 (volume_component num s row + avg_size_component num s row
                      + relative_volume_component num s from_addr row),
           [(''total_volume'', Num (py_float num (total_volume row))),
            (''avg_transfer_size'', Num (avg_transfer_size num row)),
            (''volume_percentile'',
               Num (volume_percentile num s (py_float num (total_volume row)))),
            (''avg_size_percentile'',
               Num (avg_size_percentile num s (avg_transfer_size num row))),
            (''volume_component'', Num (volume_component num s row)),
            (''avg_size_component'', Num (avg_size_component num s row)),
            (''relative_volume_component'',
               Num (relative_volume_component num s from_addr row))]))"

section \<open>Frequency scorer\<close>

text \<open>The inner JOIN with \<^verbatim>\<open>transfers\<close> and the GROUP BY give one row when the pair
  has a relationship row and at least one transfer, and no row otherwise.\<close>

definition first_transfer :: "transfer list \<Rightarrow> timestamp" where
  "first_transfer ts = Min (set (map t_timestamp ts))"

definition last_transfer :: "transfer list \<Rightarrow> timestamp" where
  "last_transfer ts = Max (set (map t_timestamp ts))"

definition unique_days :: "transfer list \<Rightarrow> nat" where
  "unique_days ts = length (remdups (map (\<lambda>t. t_timestamp t div day) ts))"

definition days_active :: "transfer list \<Rightarrow> int" where
  "days_active ts = max (days_between (last_transfer ts) (first_transfer ts) + 1) 1"

definition count_percentile :: "store \<Rightarrow> int \<Rightarrow> real" where
  "count_percentile s c =
     real (length (filter (\<lambda>ar. transfer_count ar < c) (account_relationships s)))
       / real (total_relationships s)"

definition transfers_per_day :: "relationship \<Rightarrow> transfer list \<Rightarrow> real" where
  "transfers_per_day row ts = of_int (transfer_count row) / of_int (days_active ts)"

text \<open>Ten transfers a day count as the hundredth percentile.\<close>

definition frequency_percentile :: "relationship \<Rightarrow> transfer list \<Rightarrow> real" where
  "frequency_percentile row ts = min 1 (transfers_per_day row ts / 10)"

definition count_component :: "store \<Rightarrow> relationship \<Rightarrow> real" where
  "count_component s row = min 40 (count_percentile s (transfer_count row) * 40)"

definition frequency_component :: "relationship \<Rightarrow> transfer list \<Rightarrow> real" where
  "frequency_component row ts = min 30 (frequency_percentile row ts * 30)"

definition consistency_component :: "transfer list \<Rightarrow> real" where
  "consistency_component ts =
     min 30 ((real (unique_days ts) / of_int (days_active ts)) * 30)"

definition calculate_frequency_score :: "store \<Rightarrow> address \<Rightarrow> address \<Rightarrow> real \<times> details" where
  "calculate_frequency_score s from_addr to_addr =
     (case relationship_row s from_addr to_addr of
        None \<Rightarrow> (0, [])
      | Some row \<Rightarrow>
          (let ts = pair_transfers s from_addr to_addr in
           if ts = [] \<or> transfer_count row = 0 then (0, [])
           else
             (min 100 (count_component s row + frequency_component row ts
                         + consistency_component ts),
              [(''transfer_count'', Num (of_int (transfer_count row))),
               (''days_active'', Num (of_int (days_active ts))),
               (''transfers_per_day'', Num (transfers_per_day row ts)),
               (''unique_days'', Num (real (unique_days ts))),
               (''count_percentile'', Num (count_percentile s (transfer_count row))),
               (''frequency_percentile'', Num (frequency_percentile row ts)),
               (''count_component'', Num (count_component s row)),
               (''frequency_component'', Num (frequency_component row ts)),
               (''consistency_component'', Num (consistency_component ts))])))"

section \<open>Temporal scorer\<close>

definition recency_component :: "int \<Rightarrow> real" where
  "recency_component days_since_last =
     (if days_since_last \<le> 1 then 40
      else if days_since_last \<le> 7 then 35
      else if days_since_last \<le> 30 then 25
      else if days_since_last \<le> 90 then 15
      else if days_since_last \<le> 365 then 5
      else 0)"

text \<open>\<^verbatim>\<open>COUNT(CASE WHEN datetime(t.timestamp) >= datetime('now', '-n days') ...)\<close>.\<close>

definition transfers_since :: "clock \<Rightarrow> int \<Rightarrow> transfer list \<Rightarrow> nat" where
  "transfers_since clk n ts = length (filter (\<lambda>t. t_timestamp t \<ge> utc_now clk - n * day) ts)"

definition duration_component :: "int \<Rightarrow> real" where
  "duration_component relationship_days = min 30 ((of_int relationship_days / 365) * 30)"

definition activity_component :: "relationship \<Rightarrow> nat \<Rightarrow> nat \<Rightarrow> real" where
  "activity_component row transfers_last_week transfers_last_month =
     (if transfer_count row > 0
      then min 30 (real transfers_last_week / of_int (transfer_count row) * 15
                   + real transfers_last_month / of_int (transfer_count row) * 15)
      else 0)"

definition calculate_temporal_score ::
  "store \<Rightarrow> clock \<Rightarrow> address \<Rightarrow> address \<Rightarrow> real \<times> details" where
  "calculate_temporal_score s clk from_addr to_addr =
     (case relationship_row s from_addr to_addr of
        None \<Rightarrow> (0, [])
      | Some row \<Rightarrow>
          (let ts = pair_transfers s from_addr to_addr in
           if ts = [] then (0, [])
           else
             (let days_since_last = days_between (local_now clk) (last_transfer ts);
                  relationship_days = days_between (last_transfer ts) (first_transfer ts) + 1;
                  transfers_last_week = transfers_since clk 7 ts;
                  transfers_last_month = transfers_since clk 30 ts
              in (recency_component days_since_last + duration_component relationship_days
                    + activity_component row transfers_last_week transfers_last_month,
                  [(''days_since_last'', Num (of_int days_since_last)),
                   (''relationship_days'', Num (of_int relationship_days)),
                   (''transfers_last_week'', Num (real transfers_last_week)),
                   (''transfers_last_month'', Num (real transfers_last_month)),
                   (''recency_component'', Num (recency_component days_since_last)),
                   (''duration_component'', Num (duration_component relationship_days)),
                   (''activity_component'',
                      Num (activity_component row transfers_last_week
                             transfers_last_month))]))))"

section \<open>Network scorer\<close>

text \<open>The first query ranges over pairs of rows \<open>r1\<close>, \<open>r2\<close> with \<open>r1\<close> leaving
  \<open>from_addr\<close> and \<open>r2\<close> entering \<open>to_addr\<close>, and counts the distinct values of its
  CASE expression.\<close>

definition common_connections :: "store \<Rightarrow> address \<Rightarrow> address \<Rightarrow> nat" where
  "common_connections s from_addr to_addr =
     length (remdups
       [if ar_to_address r1 = ar_from_address r2 then ar_to_address r1
        else ar_from_address r1.
          r1 \<leftarrow> account_relationships s, r2 \<leftarrow> account_relationships s,
          ar_from_address r1 = from_addr \<and> ar_to_address r2 = to_addr \<and>
          (ar_to_address r1 = ar_from_address r2 \<or> ar_from_address r1 = ar_to_address r2)])"

text \<open>The columns that the second query names: the degree centrality and the pagerank of
  both accounts.\<close>

record metrics_lookup =
  from_degree :: "real option"
  to_degree :: "real option"
  from_pagerank :: "real option"
  to_pagerank :: "real option"

text \<open>The metrics row of an account, as a query by its address finds it.\<close>

definition metrics_row :: "store \<Rightarrow> address \<Rightarrow> network_metrics option" where
  "metrics_row s addr = find (\<lambda>nm. nm_address nm = addr) (account_network_metrics s)"

text \<open>The text of the second query writes the join condition as \<^verbatim>\<open>f.? = nm1.address\<close>: a
  bind marker stands where SQLite's grammar wants a column name. SQLite rejects the
  statement when it is prepared (\<^verbatim>\<open>near "?": syntax error\<close>), whatever the tables hold,
  and \<^verbatim>\<open>cursor.execute\<close> raises \<^verbatim>\<open>sqlite3.OperationalError\<close>. No handler catches it.\<close>

definition network_metrics_query :: "store \<Rightarrow> address \<Rightarrow> address \<Rightarrow> error + metrics_lookup" where
  "network_metrics_query s from_addr to_addr = Inl OperationalError"

text \<open>\<^verbatim>\<open>x or 0\<close> on a fetched column.\<close>

definition or_zero :: "real option \<Rightarrow> real" where
  "or_zero x = (case x of None \<Rightarrow> 0 | Some v \<Rightarrow> v)"

text \<open>Lines 272 to 293, which no run reaches: the score and the breakdown from the two
  query results.\<close>

definition network_result :: "nat \<Rightarrow> metrics_lookup \<Rightarrow> real \<times> details" where
  "network_result common metrics =
     (let fd = or_zero (from_degree metrics);
          td = or_zero (to_degree metrics);
          fp = or_zero (from_pagerank metrics);
          tp = or_zero (to_pagerank metrics);
          common_connections_component = min 40 (real common * 5);
          centrality_component = min 30 (((fd + td) / 2) * 100);
          importance_component = min 30 (((fp + tp) / 2) * 1000)
      in (min 100 (common_connections_component + centrality_component + importance_component),
          [(''common_connections'', Num (real common)),
           (''avg_degree_centrality'', Num ((fd + td) / 2)),
           (''avg_pagerank'', Num ((fp + tp) / 2)),
           (''common_connections_component'', Num common_connections_component),
           (''centrality_component'', Num centrality_component),
           (''importance_component'', Num importance_component)]))"

definition calculate_network_score ::
  "store \<Rightarrow> address \<Rightarrow> address \<Rightarrow> error + real \<times> details" where
  "calculate_network_score s from_addr to_addr =
     (let common = common_connections s from_addr to_addr
      in case network_metrics_query s from_addr to_addr of
           Inl e \<Rightarrow> Inl e
         | Inr metrics \<Rightarrow> Inr (network_result common metrics))"

section \<open>Risk scorer\<close>

definition rapid_transfers :: "numerics \<Rightarrow> store \<Rightarrow> address \<Rightarrow> address \<Rightarrow> nat" where
  "rapid_transfers num s from_addr to_addr =
     length [(t1, t2). t1 \<leftarrow> transfers s, t2 \<leftarrow> transfers s,
               t_to_address t1 = t_from_address t2 \<and> t_from_address t1 = from_addr \<and>
               t_to_address t2 = to_addr \<and>
               gap_minutes num (t_timestamp t1) (t_timestamp t2) < 5]"

text \<open>The operator \<^verbatim>\<open>%\<close> of SQLite converts both operands to 64-bit integers: a double
  at or beyond the ends of the range becomes the end, any other is cut at the point. The
  remainder is 0 exactly when the integer is a multiple.\<close>

definition sql_integer :: "real \<Rightarrow> int" where
  "sql_integer r =
     (if r \<le> - 9223372036854775808 then - 9223372036854775808
      else if r \<ge> 9223372036854775808 then 9223372036854775807
      else if r \<ge> 0 then \<lfloor>r\<rfloor> else \<lceil>r\<rceil>)"

definition round_value :: "numerics \<Rightarrow> int \<Rightarrow> bool" where
  "round_value num v =
     (sql_integer (sql_real num (of_int v)) mod 1000000000000 = 0 \<or>
      sql_integer (sql_real num (of_int v)) mod 10000000000000 = 0 \<or>
      sql_integer (sql_real num (of_int v)) mod 100000000000000 = 0)"

definition round_numbers :: "numerics \<Rightarrow> store \<Rightarrow> address \<Rightarrow> address \<Rightarrow> nat" where
  "round_numbers num s from_addr to_addr =
     length (filter (\<lambda>t. round_value num (t_value t)) (pair_transfers s from_addr to_addr))"

definition hour_of :: "timestamp \<Rightarrow> int" where
  "hour_of ts = (ts mod day) div 3600"

definition unusual_time :: "store \<Rightarrow> address \<Rightarrow> address \<Rightarrow> nat" where
  "unusual_time s from_addr to_addr =
     length (filter (\<lambda>t. 2 \<le> hour_of (t_timestamp t) \<and> hour_of (t_timestamp t) \<le> 5)
               (pair_transfers s from_addr to_addr))"

text \<open>Lines 348 to 361. The guard \<^verbatim>\<open>if account_data and rel_data['created_at']\<close> tests
  the row of the receiver, which is true whenever the row exists, and the creation time of
  the relationship. \<^verbatim>\<open>datetime.fromisoformat\<close> of the account's creation time raises
  \<^verbatim>\<open>TypeError\<close> when that column is NULL.\<close>

definition new_account_flag :: "store \<Rightarrow> address \<Rightarrow> relationship \<Rightarrow> error + nat" where
  "new_account_flag s to_addr rel_data =
     (case account_row s to_addr of
        None \<Rightarrow> Inr 0
      | Some account_data \<Rightarrow>
          (case ar_created_at rel_data of
             None \<Rightarrow> Inr 0
           | Some rel_created \<Rightarrow>
               (case created_at account_data of
                  None \<Rightarrow> Inl TypeError
                | Some acc_created \<Rightarrow>
                    Inr (if days_between rel_created acc_created < 7 then 1 else 0))))"

text \<open>Lines 363 to 382.\<close>

definition risk_result ::
  "numerics \<Rightarrow> store \<Rightarrow> address \<Rightarrow> address \<Rightarrow> relationship \<Rightarrow> nat \<Rightarrow> real \<times> details" where
  "risk_result num s from_addr to_addr rel_data flag =
     (let n = real_of_int (max (transfer_count rel_data) 1);
          rapid = rapid_transfers num s from_addr to_addr;
          rounds = round_numbers num s from_addr to_addr;
          unusual = unusual_time s from_addr to_addr;
          rapid_transfer_risk = min 30 ((real rapid / n) * 100);
          round_number_risk = min 25 ((real rounds / n) * 50);
          time_anomaly_risk = min 25 ((real unusual / n) * 50);
          new_account_risk = real flag * 20
      in (min 100 (rapid_transfer_risk + round_number_risk + time_anomaly_risk
                     + new_account_risk),
          [(''rapid_transfers'', Num (real rapid)),
           (''round_numbers'', Num (real rounds)),
           (''unusual_time_transfers'', Num (real unusual)),
           (''new_account_interaction'', Boolean (flag \<noteq> 0)),
           (''rapid_transfer_risk'', Num rapid_transfer_risk),
           (''round_number_risk'', Num round_number_risk),
           (''time_anomaly_risk'', Num time_anomaly_risk),
           (''new_account_risk'', Num new_account_risk)]))"

definition calculate_risk_score ::
  "numerics \<Rightarrow> store \<Rightarrow> address \<Rightarrow> address \<Rightarrow> error + real \<times> details" where
  "calculate_risk_score num s from_addr to_addr =
     (case relationship_row s from_addr to_addr of
        None \<Rightarrow> Inr (0, [])
      | Some rel_data \<Rightarrow>
          (case new_account_flag s to_addr rel_data of
             Inl e \<Rightarrow> Inl e
           | Inr flag \<Rightarrow> Inr (risk_result num s from_addr to_addr rel_data flag)))"

section \<open>The aggregator on a store\<close>

text \<open>Lines 388 to 392 call the five scorers in this order; an exception of one of them
  leaves the aggregator at that call.\<close>

definition calculate_total_score ::
  "numerics \<Rightarrow> (real \<Rightarrow> real) \<Rightarrow> store \<Rightarrow> clock \<Rightarrow> address \<Rightarrow> address \<Rightarrow>
   error + RelationshipScore" where
  "calculate_total_score num round2 s clk from_addr to_addr =
     (let v = calculate_volume_score num s from_addr to_addr;
          f = calculate_frequency_score s from_addr to_addr;
          t = calculate_temporal_score s clk from_addr to_addr
      in case calculate_network_score s from_addr to_addr of
           Inl e \<Rightarrow> Inl e
         | Inr n \<Rightarrow>
             (case calculate_risk_score num s from_addr to_addr of
                Inl e \<Rightarrow> Inl e
              | Inr r \<Rightarrow> Inr (combine_scores round2 from_addr to_addr v f t n r)))"

section \<open>Centrality engine\<close>

text \<open>The graph that \<^verbatim>\<open>update_network_metrics\<close> builds with \<^verbatim>\<open>G.add_edge\<close>: the nodes in
  the order of their first appearance, and one edge for each ordered pair, with the weight
  and the transfer count of the last row that names the pair.\<close>

record graph =
  nodes :: "address list"
  edges :: "(address \<times> address \<times> real \<times> int) list"

definition add_node :: "address \<Rightarrow> address list \<Rightarrow> address list" where
  "add_node v ns = (if v \<in> set ns then ns else ns @ [v])"

definition same_edge :: "address \<Rightarrow> address \<Rightarrow> address \<times> address \<times> real \<times> int \<Rightarrow> bool" where
  "same_edge u v e = (fst e = u \<and> fst (snd e) = v)"

definition add_edge :: "graph \<Rightarrow> address \<Rightarrow> address \<Rightarrow> real \<Rightarrow> int \<Rightarrow> graph" where
  "add_edge G u v weight n =
     \<lparr> nodes = add_node v (add_node u (nodes G)),
       edges = (if list_ex (same_edge u v) (edges G)
                then map (\<lambda>e. if same_edge u v e then (u, v, weight, n) else e) (edges G)
                else edges G @ [(u, v, weight, n)]) \<rparr>"

definition build_graph :: "relationship list \<Rightarrow> graph" where
  "build_graph rows =
     foldl (\<lambda>G row. add_edge G (ar_from_address row) (ar_to_address row)
                       (total_volume row) (transfer_count row))
       \<lparr> nodes = [], edges = [] \<rparr> rows"

definition successors :: "graph \<Rightarrow> address \<Rightarrow> address list" where
  "successors G v = [fst (snd e). e \<leftarrow> edges G, fst e = v]"

definition predecessors :: "graph \<Rightarrow> address \<Rightarrow> address list" where
  "predecessors G v = [fst e. e \<leftarrow> edges G, fst (snd e) = v]"

text \<open>\<^verbatim>\<open>set(G.neighbors(node)) | set(G.predecessors(node))\<close>.\<close>

definition neighbors :: "graph \<Rightarrow> address \<Rightarrow> address list" where
  "neighbors G v = remdups (successors G v @ predecessors G v)"

definition avg_common :: "graph \<Rightarrow> address \<Rightarrow> real" where
  "avg_common G node =
     (let common_neighbors_counts =
            map (\<lambda>neighbor. length (filter (\<lambda>x. x \<in> set (neighbors G neighbor))
                                       (neighbors G node)))
              (neighbors G node)
      in if common_neighbors_counts = [] then 0
         else real (sum_list common_neighbors_counts) / real (length common_neighbors_counts))"

text \<open>The graph algorithms belong to the networkx library and are not part of the
  repository: they are parameters of the model. Each returns a dictionary from nodes to
  values, or raises (the power iteration of pagerank, for one, when it does not converge).\<close>

record nx =
  nx_degree_centrality :: "graph \<Rightarrow> error + (address \<rightharpoonup> real)"
  nx_betweenness_centrality :: "graph \<Rightarrow> error + (address \<rightharpoonup> real)"
  nx_closeness_centrality :: "graph \<Rightarrow> error + (address \<rightharpoonup> real)"
  nx_pagerank :: "graph \<Rightarrow> error + (address \<rightharpoonup> real)"
  nx_to_undirected :: "graph \<Rightarrow> graph"
  nx_clustering :: "graph \<Rightarrow> error + (address \<rightharpoonup> real)"

text \<open>The connection of the scorer. With the default settings of \<^verbatim>\<open>sqlite3.connect\<close> the
  first INSERT opens a transaction: its writes are seen through this connection only,
  until \<^verbatim>\<open>commit\<close> makes them the stored state that every other connection reads.\<close>

record connection =
  committed :: store
  uncommitted :: "network_metrics list option"

definition view :: "connection \<Rightarrow> store" where
  "view c =
     (case uncommitted c of
        None \<Rightarrow> committed c
      | Some tab \<Rightarrow> (committed c)\<lparr> account_network_metrics := tab \<rparr>)"

text \<open>\<^verbatim>\<open>INSERT OR REPLACE\<close> on the key \<open>address\<close>.\<close>

definition upsert :: "network_metrics \<Rightarrow> network_metrics list \<Rightarrow> network_metrics list" where
  "upsert row tab = filter (\<lambda>r. nm_address r \<noteq> nm_address row) tab @ [row]"

text \<open>The loop over \<^verbatim>\<open>G.nodes()\<close>. A statement may fail in the store (a locked or full
  database): \<open>fault node\<close> says that the INSERT for \<open>node\<close> raises.\<close>

fun write_metrics ::
  "(address \<Rightarrow> bool) \<Rightarrow> (address \<Rightarrow> network_metrics) \<Rightarrow> address list \<Rightarrow>
   network_metrics list \<Rightarrow> error option \<times> network_metrics list" where
  "write_metrics fault row_of [] tab = (None, tab)"
| "write_metrics fault row_of (node # rest) tab =
     (if fault node then (Some OperationalError, tab)
      else write_metrics fault row_of rest (upsert (row_of node) tab))"

definition metrics_of ::
  "graph \<Rightarrow> (address \<rightharpoonup> real) \<Rightarrow> (address \<rightharpoonup> real) \<Rightarrow> (address \<rightharpoonup> real) \<Rightarrow>
   (address \<rightharpoonup> real) \<Rightarrow> (address \<rightharpoonup> real) \<Rightarrow> timestamp \<Rightarrow> address \<Rightarrow> network_metrics" where
  "metrics_of G dc bc cc cl pr now node =
     \<lparr> nm_address = node,
       degree_centrality = or_zero (dc node),
       betweenness_centrality = or_zero (bc node),
       closeness_centrality = or_zero (cc node),
       clustering_coefficient = or_zero (cl node),
       pagerank = or_zero (pr node),
       common_neighbors_avg = avg_common G node,
       updated_at = now \<rparr>"

definition update_network_metrics ::
  "nx \<Rightarrow> (address \<Rightarrow> bool) \<Rightarrow> clock \<Rightarrow> connection \<Rightarrow> error option \<times> connection" where
  "update_network_metrics lib fault clk c =
     (let G = build_graph (account_relationships (view c)) in
      case nx_degree_centrality lib G of Inl e \<Rightarrow> (Some e, c) | Inr dc \<Rightarrow>
      (case nx_betweenness_centrality lib G of Inl e \<Rightarrow> (Some e, c) | Inr bc \<Rightarrow>
      (case nx_closeness_centrality lib G of Inl e \<Rightarrow> (Some e, c) | Inr cc \<Rightarrow>
      (case nx_pagerank lib G of Inl e \<Rightarrow> (Some e, c) | Inr pr \<Rightarrow>
      (case nx_clustering lib (nx_to_undirected lib G) of Inl e \<Rightarrow> (Some e, c) | Inr cl \<Rightarrow>
      (case write_metrics fault (metrics_of G dc bc cc cl pr (utc_now clk)) (nodes G)
              (account_network_metrics (view c)) of
         (Some e, tab) \<Rightarrow> (Some e, c\<lparr> uncommitted := Some tab \<rparr>)
       | (None, tab) \<Rightarrow>
           (None, \<lparr> committed = (committed c)\<lparr> account_network_metrics := tab \<rparr>,
                   uncommitted = None \<rparr>)))))))"

section \<open>Notions that the claims use\<close>

text \<open>The percentile rank as the specification words it: the count of the population
  values strictly less than the input, divided by the larger of the population size and 1.\<close>

definition spec_percentile_rank :: "real \<Rightarrow> real list \<Rightarrow> real" where
  "spec_percentile_rank x population =
     real (length (filter (\<lambda>v. v < x) population)) / real (max (length population) 1)"


text \<open>The metric columns of a row: every column but \<open>updated_at\<close>.\<close>

definition metric_fields ::
  "network_metrics \<Rightarrow> address \<times> real \<times> real \<times> real \<times> real \<times> real \<times> real" where
  "metric_fields nm =
     (nm_address nm, degree_centrality nm, betweenness_centrality nm, closeness_centrality nm,
      clustering_coefficient nm, pagerank nm, common_neighbors_avg nm)"

text \<open>A run of the engine fails before its commit when a graph algorithm raises or the
  INSERT for a node of the graph raises.\<close>

definition engine_fails :: "nx \<Rightarrow> (address \<Rightarrow> bool) \<Rightarrow> connection \<Rightarrow> bool" where
  "engine_fails lib fault c =
     (let G = build_graph (account_relationships (view c))
      in isl (nx_degree_centrality lib G) \<or> isl (nx_betweenness_centrality lib G)
         \<or> isl (nx_closeness_centrality lib G) \<or> isl (nx_pagerank lib G)
         \<or> isl (nx_clustering lib (nx_to_undirected lib G)) \<or> list_ex fault (nodes G))"

text \<open>The row that a run computes for a node, from the dictionaries that the graph
  algorithms return.\<close>

definition engine_row :: "nx \<Rightarrow> connection \<Rightarrow> timestamp \<Rightarrow> address \<Rightarrow> network_metrics" where
  "engine_row lib c now node =
     (let G = build_graph (account_relationships (view c))
      in metrics_of G (projr (nx_degree_centrality lib G))
           (projr (nx_betweenness_centrality lib G)) (projr (nx_closeness_centrality lib G))
           (projr (nx_clustering lib (nx_to_undirected lib G))) (projr (nx_pagerank lib G))
           now node)"

text \<open>The graph algorithms give, at a second call on a graph, the answers of the first
  call on it.\<close>

definition same_answers :: "nx \<Rightarrow> nx \<Rightarrow> graph \<Rightarrow> bool" where
  "same_answers lib1 lib2 G =
     (nx_degree_centrality lib2 G = nx_degree_centrality lib1 G
      \<and> nx_betweenness_centrality lib2 G = nx_betweenness_centrality lib1 G
      \<and> nx_closeness_centrality lib2 G = nx_closeness_centrality lib1 G
      \<and> nx_pagerank lib2 G = nx_pagerank lib1 G
      \<and> nx_clustering lib2 (nx_to_undirected lib2 G)
          = nx_clustering lib1 (nx_to_undirected lib1 G))"

text \<open>The common connections as the specification words them.\<close>

definition edge :: "store \<Rightarrow> address \<Rightarrow> address \<Rightarrow> bool" where
  "edge s u v =
     list_ex (\<lambda>ar. ar_from_address ar = u \<and> ar_to_address ar = v) (account_relationships s)"

text \<open>The number of distinct accounts \<open>X\<close> such that an edge from A to X and an edge from
  X to B exist, or an edge from X to A and an edge from B to X exist.\<close>

definition spec_common_connections :: "store \<Rightarrow> address \<Rightarrow> address \<Rightarrow> nat" where
  "spec_common_connections s a b =
     card {x. (edge s a x \<and> edge s x b) \<or> (edge s x a \<and> edge s b x)}"

section \<open>Example stores\<close>

text \<open>The conversions on the numbers of the examples below. The volumes and balances are
  integers of at most four digits, which \<^verbatim>\<open>float\<close> and \<^verbatim>\<open>CAST\<close> keep as they are; the
  average sizes are 3, 10, 100, 125 and -1000, quotients that are doubles; and the one pair
  of transfers that the rapid-transfer query joins is 100 seconds apart, far from the five
  minutes on either side of which the double falls with the exact value.\<close>

definition example_numerics :: numerics where
  "example_numerics =
     \<lparr> py_float = (\<lambda>x. x), sql_real = (\<lambda>x. x), fdiv = (\<lambda>x n. x / of_int n),
       gap_minutes = (\<lambda>t1 t2. \<bar>of_int (t2 - t1)\<bar> / 60) \<rparr>"

text \<open>The conversions of two volumes that are stored as text. The double nearest to both
  is 22935864403378298880 (the doubles there are 4194304 apart, and the one below is
  22935864403378294784), which \<^verbatim>\<open>float\<close> returns for both and SQLite's cast for the
  second; for the first, SQLite's cast returns the double below.\<close>

definition observed_numerics :: numerics where
  "observed_numerics =
     example_numerics
       \<lparr> py_float :=
           (\<lambda>x. if x = 22935864403378296835 \<or> x = 22935864403378296840
                then 22935864403378298880 else x),
         sql_real :=
           (\<lambda>x. if x = 22935864403378296835 then 22935864403378294784
                else if x = 22935864403378296840 then 22935864403378298880 else x) \<rparr>"

text \<open>One relationship of volume 3 from an account that holds 10000, no transfer and no
  metrics on record.\<close>

definition store_small :: store where
  "store_small =
     \<lparr> accounts = [\<lparr> address = ''A'', balance = 10000, created_at = Some 0 \<rparr>],
       transfers = [],
       account_relationships =
         [\<lparr> ar_from_address = ''A'', ar_to_address = ''B'', total_volume = 3,
            transfer_count = 1, ar_created_at = None \<rparr>],
       account_network_metrics = [] \<rparr>"

text \<open>The only relationship has the volume \<open>v\<close>.\<close>

definition store_one_volume :: "real \<Rightarrow> store" where
  "store_one_volume v =
     \<lparr> accounts = [], transfers = [],
       account_relationships =
         [\<lparr> ar_from_address = ''A'', ar_to_address = ''B'', total_volume = v,
            transfer_count = 1, ar_created_at = None \<rparr>],
       account_network_metrics = [] \<rparr>"


text \<open>The receiver has an accounts row whose creation time is NULL; the relationship has
  a creation time.\<close>

definition store_null_created :: store where
  "store_null_created =
     \<lparr> accounts = [\<lparr> address = ''B'', balance = 0, created_at = None \<rparr>],
       transfers = [],
       account_relationships =
         [\<lparr> ar_from_address = ''A'', ar_to_address = ''B'', total_volume = 10,
            transfer_count = 1, ar_created_at = Some 0 \<rparr>],
       account_network_metrics = [] \<rparr>"

text \<open>No row for the pair A, B, which share the neighbour C.\<close>

definition store_two_hop :: store where
  "store_two_hop =
     \<lparr> accounts = [], transfers = [],
       account_relationships =
         [\<lparr> ar_from_address = ''A'', ar_to_address = ''C'', total_volume = 10,
            transfer_count = 1, ar_created_at = None \<rparr>,
          \<lparr> ar_from_address = ''C'', ar_to_address = ''B'', total_volume = 20,
            transfer_count = 2, ar_created_at = None \<rparr>],
       account_network_metrics = [] \<rparr>"

text \<open>The edges X to A and B to X, and no other.\<close>

definition store_reverse :: store where
  "store_reverse =
     \<lparr> accounts = [], transfers = [],
       account_relationships =
         [\<lparr> ar_from_address = ''X'', ar_to_address = ''A'', total_volume = 10,
            transfer_count = 1, ar_created_at = None \<rparr>,
          \<lparr> ar_from_address = ''B'', ar_to_address = ''X'', total_volume = 20,
            transfer_count = 2, ar_created_at = None \<rparr>],
       account_network_metrics = [] \<rparr>"

text \<open>Three accounts, three relationships (one of them without a counted transfer), five
  transfers and two metrics rows. The relationship from A to B was first seen five days
  before the account B was created.\<close>

definition ex_row :: relationship where
  "ex_row = \<lparr> ar_from_address = ''A'', ar_to_address = ''B'', total_volume = 500,
              transfer_count = 4, ar_created_at = Some 8208000 \<rparr>"

definition ex_store :: store where
  "ex_store =
     \<lparr> accounts =
         [\<lparr> address = ''A'', balance = 1000, created_at = Some 0 \<rparr>,
          \<lparr> address = ''B'', balance = 50, created_at = Some 8640000 \<rparr>,
          \<lparr> address = ''C'', balance = 0, created_at = Some 0 \<rparr>],
       transfers =
         [\<lparr> t_from_address = ''A'', t_to_address = ''B'', t_value = 1000000000000,
            t_timestamp = 8823600 \<rparr>,
          \<lparr> t_from_address = ''A'', t_to_address = ''B'', t_value = 5,
            t_timestamp = 8935200 \<rparr>,
          \<lparr> t_from_address = ''A'', t_to_address = ''B'', t_value = 7,
            t_timestamp = 9504000 \<rparr>,
          \<lparr> t_from_address = ''A'', t_to_address = ''C'', t_value = 100,
            t_timestamp = 8823500 \<rparr>,
          \<lparr> t_from_address = ''C'', t_to_address = ''B'', t_value = 900,
            t_timestamp = 8823600 \<rparr>],
       account_relationships =
         [ex_row,
          \<lparr> ar_from_address = ''A'', ar_to_address = ''C'', total_volume = 100,
            transfer_count = 1, ar_created_at = None \<rparr>,
          \<lparr> ar_from_address = ''C'', ar_to_address = ''B'', total_volume = 900,
            transfer_count = 0, ar_created_at = Some 0 \<rparr>],
       account_network_metrics =
         [\<lparr> nm_address = ''A'', degree_centrality = 1/2, betweenness_centrality = 0,
            closeness_centrality = 0, clustering_coefficient = 0, pagerank = 1/100,
            common_neighbors_avg = 0, updated_at = 0 \<rparr>,
          \<lparr> nm_address = ''B'', degree_centrality = 1/4, betweenness_centrality = 0,
            closeness_centrality = 0, clustering_coefficient = 0, pagerank = 1/50,
            common_neighbors_avg = 0, updated_at = 0 \<rparr>] \<rparr>"

definition ex_clock :: clock where
  "ex_clock = \<lparr> local_now = 9594000, utc_now = 9590400 \<rparr>"

text \<open>A relationship that counts one transfer, and one that counts none.\<close>

definition store_zero_count :: store where
  "store_zero_count =
     \<lparr> accounts = [], transfers = [],
       account_relationships =
         [\<lparr> ar_from_address = ''A'', ar_to_address = ''B'', total_volume = 10,
            transfer_count = 1, ar_created_at = None \<rparr>,
          \<lparr> ar_from_address = ''C'', ar_to_address = ''D'', total_volume = 0,
            transfer_count = 0, ar_created_at = None \<rparr>],
       account_network_metrics = [] \<rparr>"

text \<open>Forty days after \<open>ex_clock\<close>.\<close>

definition later_clock :: clock where
  "later_clock = \<lparr> local_now = 13050000, utc_now = 13046400 \<rparr>"

text \<open>One hour after \<open>ex_clock\<close>.\<close>

definition hour_later_clock :: clock where
  "hour_later_clock = \<lparr> local_now = 9597600, utc_now = 9594000 \<rparr>"

text \<open>Graph algorithms for the examples: every node gets the degree centrality one half
  and an equal share of the pagerank. In the second library the power iteration fails.\<close>

definition lib_const :: nx where
  "lib_const =
     \<lparr> nx_degree_centrality = (\<lambda>G. Inr (\<lambda>v. if v \<in> set (nodes G) then Some (1/2) else None)),
       nx_betweenness_centrality = (\<lambda>G. Inr (\<lambda>v. None)),
       nx_closeness_centrality = (\<lambda>G. Inr (\<lambda>v. None)),
       nx_pagerank =
         (\<lambda>G. Inr (\<lambda>v. if v \<in> set (nodes G) then Some (1 / real (length (nodes G)))
                          else None)),
       nx_to_undirected = (\<lambda>G. G),
       nx_clustering = (\<lambda>G. Inr (\<lambda>v. None)) \<rparr>"

definition lib_diverging :: nx where
  "lib_diverging = lib_const\<lparr> nx_pagerank := (\<lambda>G. Inl PowerIterationFailedConvergence) \<rparr>"

definition ex_connection :: connection where
  "ex_connection = \<lparr> committed = ex_store, uncommitted = None \<rparr>"

lemmas scorer_defs =
  calculate_volume_score_def calculate_frequency_score_def calculate_temporal_score_def
  calculate_risk_score_def risk_result_def
  relationship_row_def account_row_def pair_transfers_def
  volume_component_def avg_size_component_def relative_volume_component_def
  sender_balance_def volume_percentile_def avg_size_percentile_def volume_rank_def
  avg_size_rank_def total_relationships_def avg_transfer_size_def count_percentile_def
  transfers_per_day_def frequency_percentile_def count_component_def
  frequency_component_def consistency_component_def
  first_transfer_def last_transfer_def unique_days_def days_active_def days_between_def
  day_def recency_component_def duration_component_def activity_component_def
  transfers_since_def rapid_transfers_def round_numbers_def round_value_def sql_integer_def
  unusual_time_def hour_of_def new_account_flag_def

section \<open>The network scorer as written\<close>

text \<open>Whatever the store holds, the second query of the network scorer is rejected, and
  the error passes through the aggregator, which calls the network scorer for every pair
  before it calls the risk scorer and before it computes anything.\<close>

lemma calculate_network_score_raises:
  "calculate_network_score s from_addr to_addr = Inl OperationalError"
  by (simp add: calculate_network_score_def network_metrics_query_def)

lemma calculate_total_score_raises:
  "calculate_total_score num round2 s clk from_addr to_addr = Inl OperationalError"
  by (simp add: calculate_total_score_def calculate_network_score_raises)


text \<open>
  Claim C5. The aggregator is to compute, for every pair, the risk multiplier as one minus
  the two-hundredth part of the risk score. The pair A, B of \<open>ex_store\<close> has a relationship
  row, transfers and metrics rows of both accounts, and the risk scorer alone returns the
  score 70 for it; the aggregator raises \<^verbatim>\<open>OperationalError\<close> in the call of the network
  scorer, before it calls the risk scorer, and computes no risk multiplier.
\<close>

theorem risk_multiplier_not_computed:
  "map_sum id fst (calculate_risk_score example_numerics ex_store ''A'' ''B'') = Inr 70
   \<and> calculate_network_score ex_store ''A'' ''B'' = Inl OperationalError
   \<and> calculate_total_score example_numerics round2 ex_store clk ''A'' ''B''
       = Inl OperationalError"
proof -
  have "map_sum id fst (calculate_risk_score example_numerics ex_store ''A'' ''B'') = Inr 70"
    by (simp add: scorer_defs ex_store_def ex_row_def example_numerics_def Let_def)
  then show ?thesis
    by (simp add: calculate_total_score_def calculate_network_score_def
        network_metrics_query_def)
qed

section \<open>Pairs without a relationship row\<close>

lemma relationship_row_None_iff:
  "relationship_row s a b = None \<longleftrightarrow>
     \<not> list_ex (\<lambda>ar. ar_from_address ar = a \<and> ar_to_address ar = b) (account_relationships s)"
  by (auto simp add: relationship_row_def find_None_iff list_ex_iff)

text \<open>The four scorers that read the row of the pair return the score 0 and an empty
  details record when there is none.\<close>

lemma no_row_returns:
  assumes "relationship_row s a b = None"
  shows "calculate_volume_score num s a b = (0, [])"
    and "calculate_frequency_score s a b = (0, [])"
    and "calculate_temporal_score s clk a b = (0, [])"
    and "calculate_risk_score num s a b = Inr (0, [])"
  using assms
  by (simp_all add: calculate_volume_score_def calculate_frequency_score_def
      calculate_temporal_score_def calculate_risk_score_def)

text \<open>
  Claim C1. For a pair without a relationship row every scorer is to return the score 0
  with an empty details record, and the aggregator the total score 0. The pair A, B of
  \<open>store_two_hop\<close> has no row. The volume, frequency, temporal and risk scorers return 0 and
  the empty record for it. The network scorer returns nothing: its second query is
  rejected and it raises \<^verbatim>\<open>OperationalError\<close>; so does the aggregator, which returns no
  total score.
\<close>

theorem no_row_pair_scores:
  "relationship_row store_two_hop ''A'' ''B'' = None
   \<and> calculate_volume_score num store_two_hop ''A'' ''B'' = (0, [])
   \<and> calculate_frequency_score store_two_hop ''A'' ''B'' = (0, [])
   \<and> calculate_temporal_score store_two_hop clk ''A'' ''B'' = (0, [])
   \<and> calculate_risk_score num store_two_hop ''A'' ''B'' = Inr (0, [])
   \<and> calculate_network_score store_two_hop ''A'' ''B'' = Inl OperationalError
   \<and> calculate_total_score num round2 store_two_hop clk ''A'' ''B'' = Inl OperationalError"
proof -
  have row: "relationship_row store_two_hop ''A'' ''B'' = None"
    by (simp add: relationship_row_def store_two_hop_def)
  have net: "calculate_network_score store_two_hop ''A'' ''B'' = Inl OperationalError"
    by (simp add: calculate_network_score_def network_metrics_query_def)
  show ?thesis
    by (simp add: row net calculate_volume_score_def calculate_frequency_score_def
        calculate_temporal_score_def calculate_risk_score_def calculate_total_score_def)
qed

section \<open>Common connections\<close>

lemma common_connections_set:
  "set [if ar_to_address r1 = ar_from_address r2 then ar_to_address r1
        else ar_from_address r1.
          r1 \<leftarrow> account_relationships s, r2 \<leftarrow> account_relationships s,
          ar_from_address r1 = a \<and> ar_to_address r2 = b \<and>
          (ar_to_address r1 = ar_from_address r2 \<or> ar_from_address r1 = ar_to_address r2)]
   = {x. \<exists>r1 r2. r1 \<in> set (account_relationships s) \<and> r2 \<in> set (account_relationships s)
          \<and> ar_from_address r1 = a \<and> ar_to_address r2 = b
          \<and> (ar_to_address r1 = ar_from_address r2 \<or> ar_from_address r1 = ar_to_address r2)
          \<and> x = (if ar_to_address r1 = ar_from_address r2 then ar_to_address r1
                  else ar_from_address r1)}"
  by (simp add: set_eq_iff) blast

text \<open>
  Claim C3, as stated: the count is the number of distinct X with edges A to X and X to B,
  or with edges X to A and B to X. With the edges X to A and B to X alone that number is 1,
  and the query counts 0: its first row variable ranges over the edges that leave A, and
  no edge leaves A.
\<close>

theorem common_connections_reverse_counterexample:
  "common_connections store_reverse ''A'' ''B'' = 0
   \<and> spec_common_connections store_reverse ''A'' ''B'' = 1"
proof -
  have "{x. (edge store_reverse ''A'' x \<and> edge store_reverse x ''B'')
          \<or> (edge store_reverse x ''A'' \<and> edge store_reverse ''B'' x)} = {''X''}"
    by (auto simp: edge_def store_reverse_def)
  then show ?thesis
    by (simp add: spec_common_connections_def common_connections_def store_reverse_def)
qed

text \<open>
  Claim C3, amended. For two different accounts A and B, the count is the number of
  distinct accounts X such that an edge from A to X and an edge from X to B exist.
\<close>

theorem common_connections_two_hop:
  assumes "a \<noteq> b"
  shows "common_connections s a b = card {x. edge s a x \<and> edge s x b}"
proof -
  let ?rs = "set (account_relationships s)"
  have "{x. \<exists>r1 r2. r1 \<in> ?rs \<and> r2 \<in> ?rs
          \<and> ar_from_address r1 = a \<and> ar_to_address r2 = b
          \<and> (ar_to_address r1 = ar_from_address r2 \<or> ar_from_address r1 = ar_to_address r2)
          \<and> x = (if ar_to_address r1 = ar_from_address r2 then ar_to_address r1
                  else ar_from_address r1)}
      = {x. edge s a x \<and> edge s x b}" (is "?L = ?R")
  proof (rule set_eqI, rule iffI)
    fix x assume "x \<in> ?L"
    then obtain r1 r2 where h: "r1 \<in> ?rs" "r2 \<in> ?rs" "ar_from_address r1 = a"
      "ar_to_address r2 = b"
      "ar_to_address r1 = ar_from_address r2 \<or> ar_from_address r1 = ar_to_address r2"
      "x = (if ar_to_address r1 = ar_from_address r2 then ar_to_address r1
            else ar_from_address r1)"
      by blast
    from h assms have via: "ar_to_address r1 = ar_from_address r2" by auto
    with h have x: "ar_to_address r1 = x" "ar_from_address r2 = x" by simp_all
    have "edge s a x" unfolding edge_def list_ex_iff using h(1,3) x(1) by blast
    moreover have "edge s x b" unfolding edge_def list_ex_iff using h(2,4) x(2) by blast
    ultimately show "x \<in> ?R" by simp
  next
    fix x assume "x \<in> ?R"
    then obtain r1 r2 where h: "r1 \<in> ?rs" "r2 \<in> ?rs" "ar_from_address r1 = a"
      "ar_to_address r1 = x" "ar_from_address r2 = x" "ar_to_address r2 = b"
      unfolding edge_def list_ex_iff by blast
    then have "r1 \<in> ?rs \<and> r2 \<in> ?rs
          \<and> ar_from_address r1 = a \<and> ar_to_address r2 = b
          \<and> (ar_to_address r1 = ar_from_address r2 \<or> ar_from_address r1 = ar_to_address r2)
          \<and> x = (if ar_to_address r1 = ar_from_address r2 then ar_to_address r1
                  else ar_from_address r1)"
      by simp
    then show "x \<in> ?L" by blast
  qed
  then have "card ?L = card ?R" by simp
  moreover have "common_connections s a b = card ?L"
    unfolding common_connections_def length_remdups_card_conv common_connections_set ..
  ultimately show ?thesis by simp
qed

theorem common_connections_two_hop_witness:
  "''A'' \<noteq> ''B''
   \<and> card {x. edge store_two_hop ''A'' x \<and> edge store_two_hop x ''B''} = 1
   \<and> common_connections store_two_hop ''A'' ''B'' = 1"
  using common_connections_two_hop [of "''A''" "''B''" store_two_hop]
  by (simp add: common_connections_def store_two_hop_def)

section \<open>The new-account flag of the risk scorer\<close>

text \<open>When the receiver's row has a creation time, or is absent, or the relationship has
  no creation time, the flag is computed: it is 1 exactly when both times are there and
  the days from the creation of the account to that of the relationship are fewer than 7,
  which includes every relationship created before the account.\<close>

lemma new_account_flag_computed:
  "new_account_flag s b row =
     (case account_row s b of
        None \<Rightarrow> Inr 0
      | Some acc \<Rightarrow>
          (case (ar_created_at row, created_at acc) of
             (None, _) \<Rightarrow> Inr 0
           | (Some rel_created, None) \<Rightarrow> Inl TypeError
           | (Some rel_created, Some acc_created) \<Rightarrow>
               Inr (if (rel_created - acc_created) div 86400 < 7 then 1 else 0)))"
  by (simp add: new_account_flag_def days_between_def day_def split: option.splits)

lemma new_account_flag_before_creation:
  assumes "account_row s b = Some acc" and "created_at acc = Some acc_created"
    and "ar_created_at row = Some rel_created" and "rel_created < acc_created"
  shows "new_account_flag s b row = Inr 1"
proof -
  have "(rel_created - acc_created) div 86400 < 0"
    using assms(4) by (simp add: div_neg_pos_less0)
  then have "(rel_created - acc_created) div 86400 < 7" by simp
  then show ?thesis
    using assms(1-3) by (simp add: new_account_flag_def days_between_def day_def)
qed

text \<open>
  Claim C10. The new-account risk is to be 0 whenever either creation time is missing. In
  \<open>store_null_created\<close> the relationship from A to B has a creation time and the receiver B
  has an accounts row whose creation time is NULL. The guard of line 356 tests the row,
  not its column, so the scorer parses the missing time and raises \<^verbatim>\<open>TypeError\<close>: it
  returns no risk score and no new-account risk.
\<close>

theorem new_account_null_created_raises:
  "map_option ar_created_at (relationship_row store_null_created ''A'' ''B'') = Some (Some 0)
   \<and> map_option created_at (account_row store_null_created ''B'') = Some None
   \<and> calculate_risk_score num store_null_created ''A'' ''B'' = Inl TypeError"
  by (simp add: calculate_risk_score_def new_account_flag_def relationship_row_def
      account_row_def store_null_created_def)

section \<open>Percentile ranks of the volume scorer\<close>

lemma relationship_row_in_set:
  "relationship_row s a b = Some row \<Longrightarrow> row \<in> set (account_relationships s)"
  unfolding relationship_row_def by (auto simp: find_Some_iff)

lemma relationship_row_key:
  "relationship_row s a b = Some row \<Longrightarrow> ar_from_address row = a \<and> ar_to_address row = b"
  unfolding relationship_row_def by (auto simp: find_Some_iff)

lemma total_relationships_pos: "0 < total_relationships s"
  by (simp add: total_relationships_def)

lemma total_relationships_row:
  "relationship_row s a b = Some row \<Longrightarrow> total_relationships s = length (account_relationships s)"
  using relationship_row_in_set[of s a b row] 
  by (cases "account_relationships s") (auto simp: total_relationships_def)

lemma volume_percentile_nonneg: "0 \<le> volume_percentile num s x"
  by (simp add: volume_percentile_def)

lemma avg_size_percentile_nonneg: "0 \<le> avg_size_percentile num s x"
  by (simp add: avg_size_percentile_def)

lemma volume_percentile_le_1: "volume_percentile num s x \<le> 1"
proof -
  have "volume_rank num s x \<le> total_relationships s"
    unfolding volume_rank_def total_relationships_def
    by (rule order_trans[OF length_filter_le]) simp
  then show ?thesis using total_relationships_pos[of s]
    by (simp add: volume_percentile_def)
qed

lemma avg_size_percentile_le_1: "avg_size_percentile num s x \<le> 1"
proof -
  have "avg_size_rank num s x \<le> total_relationships s"
    unfolding avg_size_rank_def total_relationships_def
    by (rule order_trans[OF length_filter_le]) simp
  then show ?thesis using total_relationships_pos[of s]
    by (simp add: avg_size_percentile_def)
qed

lemma ratio_less_1: "a < b \<Longrightarrow> real a / real b < 1"
  by (cases "b = 0") simp_all

text \<open>The row of the pair does not count itself when SQLite's cast of its volume is not
  below the double that Python binds.\<close>

lemma volume_percentile_less_1:
  assumes "relationship_row s a b = Some row"
    and "\<not> sql_real num (total_volume row) < py_float num (total_volume row)"
  shows "volume_percentile num s (py_float num (total_volume row)) < 1"
proof -
  have "volume_rank num s (py_float num (total_volume row)) < length (account_relationships s)"
    unfolding volume_rank_def
    by (rule length_filter_less[OF relationship_row_in_set[OF assms(1)]]) (rule assms(2))
  then show ?thesis
    unfolding volume_percentile_def total_relationships_row[OF assms(1)] by (rule ratio_less_1)
qed

lemma avg_size_percentile_less_1:
  assumes "relationship_row s a b = Some row" and "0 \<le> transfer_count row"
    and "sql_real num (total_volume row) = py_float num (total_volume row)"
  shows "avg_size_percentile num s (avg_transfer_size num row) < 1"
proof -
  have "\<not> (transfer_count row \<noteq> 0 \<and>
           fdiv num (sql_real num (total_volume row)) (transfer_count row)
             < avg_transfer_size num row)"
  proof (cases "transfer_count row = 0")
    case True
    then show ?thesis by simp
  next
    case False
    with assms(2) have "max (transfer_count row) 1 = transfer_count row" by simp
    then show ?thesis by (simp add: avg_transfer_size_def assms(3))
  qed
  then have "avg_size_rank num s (avg_transfer_size num row) < length (account_relationships s)"
    unfolding avg_size_rank_def
    by (intro length_filter_less[OF relationship_row_in_set[OF assms(1)]])
  then show ?thesis
    unfolding avg_size_percentile_def total_relationships_row[OF assms(1)]
    by (rule ratio_less_1)
qed

text \<open>
  Claim C6, as stated: the percentile rank counts the population values strictly less
  than the input over all rows, no row excluded. The average transfer size of a row is its
  volume over max(transfer_count, 1), so the row from C to D has the average size 0, which
  is less than the average size 10 of the row from A to B: the percentile rank of 10 in
  that population is one half. The query divides by \<^verbatim>\<open>NULLIF(transfer_count, 0)\<close>, never
  counts the row from C to D, and gives 0.
\<close>

theorem avg_size_percentile_zero_count_counterexample:
  "relationship_row store_zero_count ''A'' ''B'' \<noteq> None
   \<and> map_of (snd (calculate_volume_score example_numerics store_zero_count ''A'' ''B''))
        ''avg_transfer_size'' = Some (Num 10)
   \<and> map_of (snd (calculate_volume_score example_numerics store_zero_count ''A'' ''B''))
        ''avg_size_percentile'' = Some (Num 0)
   \<and> spec_percentile_rank 10
        (map (avg_transfer_size example_numerics) (account_relationships store_zero_count))
       = 1/2"
  by (simp add: store_zero_count_def calculate_volume_score_def relationship_row_def
      avg_size_percentile_def avg_size_rank_def spec_percentile_rank_def avg_transfer_size_def
      total_relationships_def example_numerics_def)

text \<open>
  Claim C6, amended. The values are compared as doubles: the population of the volume
  rank is SQLite's cast of the volume of every row, and the input is Python's float of the
  volume of the row of the pair. For the row of a pair, with a transfer count that is not
  negative and a volume on which the two conversions agree: the volume percentile is the
  percentile rank of the input in that population; the average-size percentile is the
  number of rows with a transfer count other than 0 whose cast volume over transfer count
  is strictly less than the row's average transfer size, divided by max(number of all
  rows, 1), which is the percentile rank among the average transfer sizes of all rows when
  every row counts at least one transfer and the conversions agree on every volume; both
  lie in [0, 1), the row itself never counting as strictly less.
\<close>

theorem volume_scorer_percentiles:
  assumes "relationship_row s a b = Some row" and "0 \<le> transfer_count row"
    and "sql_real num (total_volume row) = py_float num (total_volume row)"
  shows "map_of (snd (calculate_volume_score num s a b)) ''volume_percentile''
           = Some (Num (spec_percentile_rank (py_float num (total_volume row))
                          (map (\<lambda>ar. sql_real num (total_volume ar))
                             (account_relationships s))))
       \<and> map_of (snd (calculate_volume_score num s a b)) ''avg_size_percentile''
           = Some (Num (real (length (filter (\<lambda>v. v < avg_transfer_size num row)
                          (map (\<lambda>ar. fdiv num (sql_real num (total_volume ar))
                                       (transfer_count ar))
                             (filter (\<lambda>ar. transfer_count ar \<noteq> 0)
                                (account_relationships s)))))
                        / real (max (length (account_relationships s)) 1)))
       \<and> (list_all (\<lambda>ar. 1 \<le> transfer_count ar
                          \<and> sql_real num (total_volume ar) = py_float num (total_volume ar))
             (account_relationships s) \<longrightarrow>
            avg_size_percentile num s (avg_transfer_size num row)
              = spec_percentile_rank (avg_transfer_size num row)
                  (map (avg_transfer_size num) (account_relationships s)))
       \<and> 0 \<le> volume_percentile num s (py_float num (total_volume row))
       \<and> volume_percentile num s (py_float num (total_volume row)) < 1
       \<and> 0 \<le> avg_size_percentile num s (avg_transfer_size num row)
       \<and> avg_size_percentile num s (avg_transfer_size num row) < 1"
proof -
  have v: "volume_percentile num s x
       = spec_percentile_rank x
           (map (\<lambda>ar. sql_real num (total_volume ar)) (account_relationships s))" for x
    by (simp add: volume_percentile_def volume_rank_def spec_percentile_rank_def
        total_relationships_def filter_map comp_def)
  have a: "avg_size_percentile num s x
       = real (length (filter (\<lambda>v. v < x)
                          (map (\<lambda>ar. fdiv num (sql_real num (total_volume ar))
                                       (transfer_count ar))
                             (filter (\<lambda>ar. transfer_count ar \<noteq> 0)
                                (account_relationships s)))))
                        / real (max (length (account_relationships s)) 1)" for x
    by (simp add: avg_size_percentile_def avg_size_rank_def total_relationships_def
        filter_map comp_def conj_commute)
  have b: "avg_size_percentile num s x
              = spec_percentile_rank x (map (avg_transfer_size num) (account_relationships s))"
    if "list_all (\<lambda>ar. 1 \<le> transfer_count ar
                       \<and> sql_real num (total_volume ar) = py_float num (total_volume ar))
          (account_relationships s)" for x
  proof -
    have "filter (\<lambda>ar. transfer_count ar \<noteq> 0
                      \<and> fdiv num (sql_real num (total_volume ar)) (transfer_count ar) < x)
             (account_relationships s)
        = filter (\<lambda>ar. avg_transfer_size num ar < x) (account_relationships s)"
      using that by (intro filter_cong) (auto simp: list_all_iff avg_transfer_size_def max_def)
    then show ?thesis
      by (simp add: avg_size_percentile_def avg_size_rank_def spec_percentile_rank_def
          total_relationships_def filter_map comp_def)
  qed
  have d1: "map_of (snd (calculate_volume_score num s a b)) ''volume_percentile''
           = Some (Num (volume_percentile num s (py_float num (total_volume row))))"
    and d2: "map_of (snd (calculate_volume_score num s a b)) ''avg_size_percentile''
           = Some (Num (avg_size_percentile num s (avg_transfer_size num row)))"
    using assms(1) by (simp_all add: calculate_volume_score_def)
  have nl: "\<not> sql_real num (total_volume row) < py_float num (total_volume row)"
    using assms(3) by simp
  show ?thesis
    unfolding d1 d2
    using v[of "py_float num (total_volume row)"] a[of "avg_transfer_size num row"]
      b[of "avg_transfer_size num row"]
      volume_percentile_less_1[OF assms(1) nl] avg_size_percentile_less_1[OF assms]
      volume_percentile_nonneg[of num s "py_float num (total_volume row)"]
      avg_size_percentile_nonneg[of num s "avg_transfer_size num row"]
    by (intro conjI impI) simp_all
qed

theorem volume_scorer_percentiles_witness:
  "relationship_row ex_store ''A'' ''B'' = Some ex_row \<and> 0 \<le> transfer_count ex_row
   \<and> sql_real example_numerics (total_volume ex_row)
       = py_float example_numerics (total_volume ex_row)
   \<and> map_of (snd (calculate_volume_score example_numerics ex_store ''A'' ''B''))
        ''volume_percentile'' = Some (Num (1/3))
   \<and> map_of (snd (calculate_volume_score example_numerics ex_store ''A'' ''B''))
        ''avg_size_percentile'' = Some (Num (1/3))
   \<and> list_all (\<lambda>ar. 1 \<le> transfer_count ar
                    \<and> sql_real example_numerics (total_volume ar)
                        = py_float example_numerics (total_volume ar))
        (account_relationships store_small)
   \<and> avg_size_percentile example_numerics store_small 3 = spec_percentile_rank 3 [3]"
proof -
  have row: "relationship_row ex_store ''A'' ''B'' = Some ex_row"
    by (simp add: ex_store_def ex_row_def relationship_row_def)
  have tc: "0 \<le> transfer_count ex_row" by (simp add: ex_row_def)
  have eq: "sql_real example_numerics x = py_float example_numerics x" for x
    by (simp add: example_numerics_def)
  have p: "spec_percentile_rank (py_float example_numerics (total_volume ex_row))
             (map (\<lambda>ar. sql_real example_numerics (total_volume ar))
                (account_relationships ex_store)) = 1/3"
    by (simp add: spec_percentile_rank_def ex_store_def ex_row_def example_numerics_def)
  have q: "real (length (filter (\<lambda>v. v < avg_transfer_size example_numerics ex_row)
                  (map (\<lambda>ar. fdiv example_numerics (sql_real example_numerics (total_volume ar))
                               (transfer_count ar))
                     (filter (\<lambda>ar. transfer_count ar \<noteq> 0) (account_relationships ex_store)))))
             / real (max (length (account_relationships ex_store)) 1) = 1/3"
    by (simp add: avg_transfer_size_def ex_store_def ex_row_def example_numerics_def)
  let ?r = "\<lparr> ar_from_address = ''A'', ar_to_address = ''B'', total_volume = 3,
            transfer_count = 1, ar_created_at = None \<rparr>"
  have row': "relationship_row store_small ''A'' ''B'' = Some ?r"
    by (simp add: store_small_def relationship_row_def)
  have all: "list_all (\<lambda>ar. 1 \<le> transfer_count ar
                    \<and> sql_real example_numerics (total_volume ar)
                        = py_float example_numerics (total_volume ar))
        (account_relationships store_small)"
    by (simp add: store_small_def example_numerics_def)
  have "avg_size_percentile example_numerics store_small (avg_transfer_size example_numerics ?r)
          = spec_percentile_rank (avg_transfer_size example_numerics ?r)
              (map (avg_transfer_size example_numerics) (account_relationships store_small))"
    using volume_scorer_percentiles [OF row', of example_numerics] all eq by simp
  then have small: "avg_size_percentile example_numerics store_small 3
                      = spec_percentile_rank 3 [3]"
    by (simp add: avg_transfer_size_def store_small_def example_numerics_def)
  show ?thesis
    using volume_scorer_percentiles [OF row tc eq] row tc all small eq unfolding p q by simp
qed

section \<open>Monotonicity of the volume component\<close>

text \<open>The volume component of the only row of a store is 40 when SQLite's cast of its
  volume is below the double that Python binds, since the row then counts itself, and 0
  when it is not.\<close>

lemma volume_component_one_row:
  "map_of (snd (calculate_volume_score num (store_one_volume v) ''A'' ''B'')) ''volume_component''
     = Some (Num (if sql_real num v < py_float num v then 40 else 0))"
  by (simp add: store_one_volume_def calculate_volume_score_def relationship_row_def
      volume_component_def volume_percentile_def volume_rank_def total_relationships_def)

text \<open>
  Claim C7. Raising the volume of a row, all else fixed, is never to lower its volume
  component. The scorer binds Python's \<^verbatim>\<open>float\<close> of the row's volume and the query compares
  it with SQLite's cast of the same column. When the cast of a volume \<open>v\<close> is below its
  float, and the cast of a volume \<open>v'\<close> is not below its float, the only row of a store has
  the volume component 40 with the volume \<open>v\<close> and 0 with the volume \<open>v'\<close>. That is so for the
  volumes 22935864403378296835 and 22935864403378296840 stored as text: raising the volume
  from the first to the second lowers the volume component from 40 to 0.
\<close>

theorem volume_component_drops:
  assumes "sql_real num v < py_float num v" and "\<not> sql_real num v' < py_float num v'"
  shows "map_of (snd (calculate_volume_score num (store_one_volume v) ''A'' ''B''))
           ''volume_component'' = Some (Num 40)
       \<and> map_of (snd (calculate_volume_score num (store_one_volume v') ''A'' ''B''))
           ''volume_component'' = Some (Num 0)"
  using assms by (simp add: volume_component_one_row)

theorem volume_component_drops_witness:
  "(22935864403378296835 :: real) < 22935864403378296840
   \<and> sql_real observed_numerics 22935864403378296835
       < py_float observed_numerics 22935864403378296835
   \<and> \<not> sql_real observed_numerics 22935864403378296840
         < py_float observed_numerics 22935864403378296840
   \<and> map_of (snd (calculate_volume_score observed_numerics
                    (store_one_volume 22935864403378296835) ''A'' ''B''))
        ''volume_component'' = Some (Num 40)
   \<and> map_of (snd (calculate_volume_score observed_numerics
                    (store_one_volume 22935864403378296840) ''A'' ''B''))
        ''volume_component'' = Some (Num 0)"
proof -
  have lt: "sql_real observed_numerics 22935864403378296835
              < py_float observed_numerics 22935864403378296835"
    by (simp add: observed_numerics_def example_numerics_def)
  have nlt: "\<not> sql_real observed_numerics 22935864403378296840
                < py_float observed_numerics 22935864403378296840"
    by (simp add: observed_numerics_def example_numerics_def)
  show ?thesis
    using volume_component_drops [OF lt nlt] lt nlt by simp
qed

section \<open>Ranges of the scores\<close>



















section \<open>The centrality engine\<close>

lemma find_append_gen:
  "find P (xs @ ys) = (case find P xs of None \<Rightarrow> find P ys | Some x \<Rightarrow> Some x)"
  by (induction xs) auto

lemma find_filter_same:
  "(\<And>x. P x \<Longrightarrow> Q x) \<Longrightarrow> find P (filter Q xs) = find P xs"
  by (induction xs) auto

lemma find_filter_none:
  "(\<And>x. P x \<Longrightarrow> \<not> Q x) \<Longrightarrow> find P (filter Q xs) = None"
  by (induction xs) auto

lemma find_upsert:
  "find (\<lambda>nm. nm_address nm = a) (upsert row tab)
     = (if nm_address row = a then Some row else find (\<lambda>nm. nm_address nm = a) tab)"
proof (cases "nm_address row = a")
  case True
  have "find (\<lambda>nm. nm_address nm = a) (filter (\<lambda>r. nm_address r \<noteq> nm_address row) tab) = None"
    using True by (intro find_filter_none) simp
  then show ?thesis using True by (simp add: upsert_def find_append_gen)
next
  case False
  have "find (\<lambda>nm. nm_address nm = a) (filter (\<lambda>r. nm_address r \<noteq> nm_address row) tab)
          = find (\<lambda>nm. nm_address nm = a) tab"
    using False by (intro find_filter_same) auto
  then show ?thesis using False
    by (simp add: upsert_def find_append_gen split: option.splits)
qed

lemma write_metrics_fault:
  "fst (write_metrics fault row_of ns tab) = (if list_ex fault ns then Some OperationalError else None)"
  by (induction ns arbitrary: tab) auto

lemma write_metrics_find:
  assumes "\<And>n. nm_address (row_of n) = n" and "\<not> list_ex fault ns"
  shows "find (\<lambda>nm. nm_address nm = a) (snd (write_metrics fault row_of ns tab))
           = (if a \<in> set ns then Some (row_of a) else find (\<lambda>nm. nm_address nm = a) tab)"
  using assms(2)
proof (induction ns arbitrary: tab)
  case Nil
  then show ?case by simp
next
  case (Cons n ns)
  then show ?case using assms(1) by (auto simp: find_upsert)
qed

lemma view_relationships:
  "account_relationships (view c) = account_relationships (committed c)"
  by (simp add: view_def split: option.splits)

lemma nm_address_metrics_of [simp]: "nm_address (metrics_of G dc bc cc cl pr now n) = n"
  by (simp add: metrics_of_def)

lemma write_metrics_Some:
  "write_metrics fault row_of ns tab = (Some e, t) \<Longrightarrow> list_ex fault ns"
  using write_metrics_fault[of fault row_of ns tab] by (simp split: if_splits)

lemma write_metrics_None:
  "write_metrics fault row_of ns tab = (None, t) \<Longrightarrow> \<not> list_ex fault ns"
  using write_metrics_fault[of fault row_of ns tab] by (simp split: if_splits)

lemma update_fst:
  "fst (update_network_metrics lib fault clk c) = None \<longleftrightarrow> \<not> engine_fails lib fault c"
  by (auto simp: update_network_metrics_def engine_fails_def Let_def
      split: sum.splits prod.splits option.splits
      dest: write_metrics_Some write_metrics_None)

lemma update_failed_committed:
  "fst (update_network_metrics lib fault clk c) \<noteq> None \<Longrightarrow>
     committed (snd (update_network_metrics lib fault clk c)) = committed c"
  by (auto simp: update_network_metrics_def Let_def split: sum.splits prod.splits option.splits)


lemma update_success:
  assumes "\<not> engine_fails lib fault c"
  shows "uncommitted (snd (update_network_metrics lib fault clk c)) = None"
    and "account_relationships (committed (snd (update_network_metrics lib fault clk c)))
           = account_relationships (committed c)"
    and "metrics_row (committed (snd (update_network_metrics lib fault clk c))) a
           = (if a \<in> set (nodes (build_graph (account_relationships (view c))))
              then Some (engine_row lib c (utc_now clk) a) else metrics_row (view c) a)"
proof -
  let ?G = "build_graph (account_relationships (view c))"
  from assms obtain dc bc cc pr cl where lib:
    "nx_degree_centrality lib ?G = Inr dc" "nx_betweenness_centrality lib ?G = Inr bc"
    "nx_closeness_centrality lib ?G = Inr cc" "nx_pagerank lib ?G = Inr pr"
    "nx_clustering lib (nx_to_undirected lib ?G) = Inr cl"
    and nofault: "\<not> list_ex fault (nodes ?G)"
    unfolding engine_fails_def Let_def
    by (metis isl_def sumE)
  let ?row = "metrics_of ?G dc bc cc cl pr (utc_now clk)"
  let ?w = "write_metrics fault ?row (nodes ?G) (account_network_metrics (view c))"
  have w: "?w = (None, snd ?w)"
    using write_metrics_fault[of fault ?row "nodes ?G" "account_network_metrics (view c)"] nofault
    by (simp add: prod_eq_iff)
  have res: "snd (update_network_metrics lib fault clk c)
      = \<lparr> committed = (committed c)\<lparr> account_network_metrics := snd ?w \<rparr>, uncommitted = None \<rparr>"
    unfolding update_network_metrics_def Let_def lib sum.case
    by (subst w) simp
  show "uncommitted (snd (update_network_metrics lib fault clk c)) = None"
    by (simp add: res)
  show "account_relationships (committed (snd (update_network_metrics lib fault clk c)))
           = account_relationships (committed c)"
    by (simp add: res)
  have row: "engine_row lib c (utc_now clk) = ?row"
    by (simp add: engine_row_def Let_def lib fun_eq_iff)
  show "metrics_row (committed (snd (update_network_metrics lib fault clk c))) a
           = (if a \<in> set (nodes ?G)
              then Some (engine_row lib c (utc_now clk) a) else metrics_row (view c) a)"
    unfolding row
    using write_metrics_find[of ?row fault "nodes ?G" a "account_network_metrics (view c)"] nofault
    by (simp add: res metrics_row_def)
qed

lemma metric_fields_engine_row:
  "account_relationships (view c') = account_relationships (view c) \<Longrightarrow>
     metric_fields (engine_row lib c' now' a) = metric_fields (engine_row lib c now a)"
  by (simp add: engine_row_def metric_fields_def metrics_of_def Let_def)

lemma engine_fails_cong:
  "account_relationships (view c') = account_relationships (view c) \<Longrightarrow>
     engine_fails lib fault c' = engine_fails lib fault c"
  by (simp add: engine_fails_def)

lemma build_graph_ex_store:
  "build_graph (account_relationships ex_store)
     = \<lparr> nodes = [''A'', ''B'', ''C''],
         edges = [(''A'', ''B'', 500, 4), (''A'', ''C'', 100, 1), (''C'', ''B'', 900, 0)] \<rparr>"
  by (simp add: build_graph_def ex_store_def ex_row_def add_edge_def add_node_def same_edge_def)

text \<open>
  Claim C9. A run of the engine that fails before its commit, in a graph algorithm or in
  the write for any node, returns the error to its caller and leaves the committed store,
  which is what every other connection reads, as it was. A run without a failure returns
  no error, leaves no open transaction, and the committed metrics table then holds the
  computed row of every node of the graph and the former row of every other account.
\<close>

theorem engine_run_all_or_nothing:
  "(engine_fails lib fault c \<longrightarrow>
      fst (update_network_metrics lib fault clk c) \<noteq> None
      \<and> committed (snd (update_network_metrics lib fault clk c)) = committed c)
   \<and> (\<not> engine_fails lib fault c \<longrightarrow>
      fst (update_network_metrics lib fault clk c) = None
      \<and> uncommitted (snd (update_network_metrics lib fault clk c)) = None
      \<and> (\<forall>a. metrics_row (committed (snd (update_network_metrics lib fault clk c))) a
             = (if a \<in> set (nodes (build_graph (account_relationships (view c))))
                then Some (engine_row lib c (utc_now clk) a) else metrics_row (view c) a)))"
proof (intro conjI impI allI)
  assume f: "engine_fails lib fault c"
  then show "fst (update_network_metrics lib fault clk c) \<noteq> None"
    by (simp add: update_fst)
  then show "committed (snd (update_network_metrics lib fault clk c)) = committed c"
    by (rule update_failed_committed)
next
  assume ok: "\<not> engine_fails lib fault c"
  then show "fst (update_network_metrics lib fault clk c) = None"
    by (simp add: update_fst)
  show "uncommitted (snd (update_network_metrics lib fault clk c)) = None"
    by (rule update_success(1)[OF ok])
  fix a
  show "metrics_row (committed (snd (update_network_metrics lib fault clk c))) a
          = (if a \<in> set (nodes (build_graph (account_relationships (view c))))
             then Some (engine_row lib c (utc_now clk) a) else metrics_row (view c) a)"
    by (rule update_success(3)[OF ok])
qed

theorem engine_run_all_or_nothing_witness:
  "engine_fails lib_const (\<lambda>n. n = ''C'') ex_connection
   \<and> fst (update_network_metrics lib_const (\<lambda>n. n = ''C'') ex_clock ex_connection)
       = Some OperationalError
   \<and> committed (snd (update_network_metrics lib_const (\<lambda>n. n = ''C'') ex_clock ex_connection))
       = ex_store
   \<and> engine_fails lib_diverging (\<lambda>n. False) ex_connection
   \<and> fst (update_network_metrics lib_diverging (\<lambda>n. False) ex_clock ex_connection)
       = Some PowerIterationFailedConvergence
   \<and> committed (snd (update_network_metrics lib_diverging (\<lambda>n. False) ex_clock ex_connection))
       = ex_store
   \<and> \<not> engine_fails lib_const (\<lambda>n. False) ex_connection
   \<and> fst (update_network_metrics lib_const (\<lambda>n. False) ex_clock ex_connection) = None
   \<and> map_option pagerank
        (metrics_row (committed (snd (update_network_metrics lib_const (\<lambda>n. False) ex_clock
           ex_connection))) ''C'') = Some (1/3)"
proof -
  have f1: "engine_fails lib_const (\<lambda>n. n = ''C'') ex_connection"
    by (simp add: engine_fails_def ex_connection_def view_def build_graph_ex_store)
  have e1: "fst (update_network_metrics lib_const (\<lambda>n. n = ''C'') ex_clock ex_connection)
              = Some OperationalError"
    by (simp add: update_network_metrics_def ex_connection_def view_def build_graph_ex_store
        lib_const_def Let_def)
  have f2: "engine_fails lib_diverging (\<lambda>n. False) ex_connection"
    by (simp add: engine_fails_def lib_diverging_def lib_const_def Let_def)
  have e2: "fst (update_network_metrics lib_diverging (\<lambda>n. False) ex_clock ex_connection)
              = Some PowerIterationFailedConvergence"
    by (simp add: update_network_metrics_def lib_diverging_def lib_const_def Let_def)
  have ok: "\<not> engine_fails lib_const (\<lambda>n. False) ex_connection"
    by (simp add: engine_fails_def ex_connection_def view_def build_graph_ex_store
        lib_const_def)
  have row: "pagerank (engine_row lib_const ex_connection (utc_now ex_clock) ''C'') = 1/3"
    by (simp add: engine_row_def ex_connection_def view_def build_graph_ex_store lib_const_def
        metrics_of_def or_zero_def)
  have c: "committed ex_connection = ex_store" by (simp add: ex_connection_def)
  have n: "''C'' \<in> set (nodes (build_graph (account_relationships (view ex_connection))))"
    by (simp add: ex_connection_def view_def build_graph_ex_store)
  show ?thesis
    using engine_run_all_or_nothing [of lib_const "\<lambda>n. n = ''C''" ex_connection ex_clock]
      engine_run_all_or_nothing [of lib_diverging "\<lambda>n. False" ex_connection ex_clock]
      engine_run_all_or_nothing [of lib_const "\<lambda>n. False" ex_connection ex_clock]
      f1 e1 f2 e2 ok row c n
    by simp
qed

section \<open>Recomputation\<close>

text \<open>A second run of the engine, after a run that did not fail, on a store that nothing
  else has written to: when the graph algorithms answer as they did and no INSERT fails,
  the second run does not fail and writes the metric columns that the first run wrote.\<close>

lemma engine_rerun:
  assumes ok1: "\<not> engine_fails lib1 fault1 c"
    and same: "same_answers lib1 lib2 (build_graph (account_relationships (view c)))"
    and nofault: "\<not> list_ex fault2 (nodes (build_graph (account_relationships (view c))))"
  shows "fst (update_network_metrics lib2 fault2 clk2
                (snd (update_network_metrics lib1 fault1 clk1 c))) = None"
    and "map_option metric_fields
           (metrics_row (committed (snd (update_network_metrics lib2 fault2 clk2
               (snd (update_network_metrics lib1 fault1 clk1 c))))) a)
         = map_option metric_fields
             (metrics_row (committed (snd (update_network_metrics lib1 fault1 clk1 c))) a)"
proof -
  let ?c1 = "snd (update_network_metrics lib1 fault1 clk1 c)"
  let ?c2 = "snd (update_network_metrics lib2 fault2 clk2 ?c1)"
  let ?G = "build_graph (account_relationships (view c))"
  have v1: "view ?c1 = committed ?c1"
    using update_success(1)[OF ok1, of clk1] by (simp add: view_def)
  have rel: "account_relationships (view ?c1) = account_relationships (view c)"
    using update_success(2)[OF ok1, of clk1] by (simp add: view_relationships)
  have ok2: "\<not> engine_fails lib2 fault2 ?c1"
    using ok1 same nofault unfolding engine_fails_def rel Let_def same_answers_def by simp
  show "fst (update_network_metrics lib2 fault2 clk2 ?c1) = None"
    using ok2 by (simp add: update_fst)
  have fields: "metric_fields (engine_row lib2 ?c1 (utc_now clk2) a)
                  = metric_fields (engine_row lib1 c (utc_now clk1) a)"
    using same unfolding engine_row_def rel Let_def same_answers_def
    by (simp add: metric_fields_def metrics_of_def)
  show "map_option metric_fields (metrics_row (committed ?c2) a)
           = map_option metric_fields (metrics_row (committed ?c1) a)"
  proof (cases "a \<in> set (nodes ?G)")
    case True
    have "metrics_row (committed ?c2) a = Some (engine_row lib2 ?c1 (utc_now clk2) a)"
      using update_success(3)[OF ok2, of clk2 a] True unfolding rel by simp
    moreover have "metrics_row (committed ?c1) a = Some (engine_row lib1 c (utc_now clk1) a)"
      using update_success(3)[OF ok1, of clk1 a] True by simp
    ultimately show ?thesis using fields by simp
  next
    case False
    have "metrics_row (committed ?c2) a = metrics_row (view ?c1) a"
      using update_success(3)[OF ok2, of clk2 a] False unfolding rel by simp
    then show ?thesis unfolding v1 by simp
  qed
qed

lemma temporal_same_reading:
  assumes "days_between (local_now clk1) (last_transfer (pair_transfers s a b))
             = days_between (local_now clk2) (last_transfer (pair_transfers s a b))"
    and "transfers_since clk1 7 (pair_transfers s a b)
             = transfers_since clk2 7 (pair_transfers s a b)"
    and "transfers_since clk1 30 (pair_transfers s a b)
             = transfers_since clk2 30 (pair_transfers s a b)"
  shows "calculate_temporal_score s clk1 a b = calculate_temporal_score s clk2 a b"
  using assms by (simp add: calculate_temporal_score_def Let_def split: option.splits)

text \<open>
  Claim C8, as stated: two computations of the score of a pair on an unchanged store agree
  on every sub-score. The temporal scorer reads the clock: on the example store it returns
  the score 4063/73 at the first clock and the score 1143/73 forty days later.
\<close>

theorem temporal_score_clock_counterexample:
  "fst (calculate_temporal_score ex_store ex_clock ''A'' ''B'') = 4063/73
   \<and> fst (calculate_temporal_score ex_store later_clock ''A'' ''B'') = 1143/73
   \<and> calculate_temporal_score ex_store ex_clock ''A'' ''B''
       \<noteq> calculate_temporal_score ex_store later_clock ''A'' ''B''"
proof -
  have t1: "fst (calculate_temporal_score ex_store ex_clock ''A'' ''B'') = 4063/73"
    by (simp add: ex_store_def ex_row_def ex_clock_def scorer_defs Let_def)
  have t2: "fst (calculate_temporal_score ex_store later_clock ''A'' ''B'') = 1143/73"
    by (simp add: ex_store_def ex_row_def later_clock_def scorer_defs Let_def)
  have ne: "calculate_temporal_score ex_store ex_clock ''A'' ''B''
       \<noteq> calculate_temporal_score ex_store later_clock ''A'' ''B''"
  proof
    assume "calculate_temporal_score ex_store ex_clock ''A'' ''B''
              = calculate_temporal_score ex_store later_clock ''A'' ''B''"
    then have "fst (calculate_temporal_score ex_store ex_clock ''A'' ''B'')
                 = fst (calculate_temporal_score ex_store later_clock ''A'' ''B'')"
      by simp
    then show False unfolding t1 t2 by simp
  qed
  show ?thesis using t1 t2 ne by simp
qed

text \<open>
  Claim C8, amended. Two computations of the temporal score of a pair on an unchanged
  store return the same score and details when the two clock readings give the same number
  of days since the last transfer and the same counts of transfers in the last 7 and the
  last 30 days. A second run of the centrality engine on unchanged relationships, after a
  run without a failure, in which the graph algorithms answer as in the first run and no
  INSERT fails, does not fail either and leaves every account with the same metric
  columns; only \<open>updated_at\<close> may differ.
\<close>

theorem recomputation_agreement:
  "(days_between (local_now clk1) (last_transfer (pair_transfers s a b))
      = days_between (local_now clk2) (last_transfer (pair_transfers s a b))
    \<and> transfers_since clk1 7 (pair_transfers s a b)
        = transfers_since clk2 7 (pair_transfers s a b)
    \<and> transfers_since clk1 30 (pair_transfers s a b)
        = transfers_since clk2 30 (pair_transfers s a b)
    \<longrightarrow> calculate_temporal_score s clk1 a b = calculate_temporal_score s clk2 a b)
   \<and> (\<not> engine_fails lib1 fault1 c
      \<and> same_answers lib1 lib2 (build_graph (account_relationships (view c)))
      \<and> \<not> list_ex fault2 (nodes (build_graph (account_relationships (view c))))
      \<longrightarrow>
        fst (update_network_metrics lib2 fault2 clk2
               (snd (update_network_metrics lib1 fault1 clk1 c))) = None
        \<and> (\<forall>x. map_option metric_fields
                  (metrics_row (committed (snd (update_network_metrics lib2 fault2 clk2
                      (snd (update_network_metrics lib1 fault1 clk1 c))))) x)
              = map_option metric_fields
                  (metrics_row (committed (snd (update_network_metrics lib1 fault1 clk1 c)))
                     x)))"
proof (intro conjI impI allI)
  assume "days_between (local_now clk1) (last_transfer (pair_transfers s a b))
      = days_between (local_now clk2) (last_transfer (pair_transfers s a b))
    \<and> transfers_since clk1 7 (pair_transfers s a b)
        = transfers_since clk2 7 (pair_transfers s a b)
    \<and> transfers_since clk1 30 (pair_transfers s a b)
        = transfers_since clk2 30 (pair_transfers s a b)"
  then show "calculate_temporal_score s clk1 a b = calculate_temporal_score s clk2 a b"
    by (intro temporal_same_reading) simp_all
next
  assume h: "\<not> engine_fails lib1 fault1 c
      \<and> same_answers lib1 lib2 (build_graph (account_relationships (view c)))
      \<and> \<not> list_ex fault2 (nodes (build_graph (account_relationships (view c))))"
  then show "fst (update_network_metrics lib2 fault2 clk2
               (snd (update_network_metrics lib1 fault1 clk1 c))) = None"
    by (intro engine_rerun(1)) simp_all
next
  fix x
  assume h: "\<not> engine_fails lib1 fault1 c
      \<and> same_answers lib1 lib2 (build_graph (account_relationships (view c)))
      \<and> \<not> list_ex fault2 (nodes (build_graph (account_relationships (view c))))"
  then show "map_option metric_fields
                  (metrics_row (committed (snd (update_network_metrics lib2 fault2 clk2
                      (snd (update_network_metrics lib1 fault1 clk1 c))))) x)
              = map_option metric_fields
                  (metrics_row (committed (snd (update_network_metrics lib1 fault1 clk1 c)))
                     x)"
    by (intro engine_rerun(2)) simp_all
qed

theorem recomputation_agreement_witness:
  "days_between (local_now ex_clock) (last_transfer (pair_transfers ex_store ''A'' ''B'')) = 1
   \<and> days_between (local_now hour_later_clock)
        (last_transfer (pair_transfers ex_store ''A'' ''B'')) = 1
   \<and> transfers_since ex_clock 7 (pair_transfers ex_store ''A'' ''B'') = 1
   \<and> transfers_since hour_later_clock 7 (pair_transfers ex_store ''A'' ''B'') = 1
   \<and> transfers_since ex_clock 30 (pair_transfers ex_store ''A'' ''B'') = 3
   \<and> transfers_since hour_later_clock 30 (pair_transfers ex_store ''A'' ''B'') = 3
   \<and> calculate_temporal_score ex_store ex_clock ''A'' ''B''
      = calculate_temporal_score ex_store hour_later_clock ''A'' ''B''
   \<and> \<not> engine_fails lib_const (\<lambda>n. False) ex_connection
   \<and> same_answers lib_const lib_const
        (build_graph (account_relationships (view ex_connection)))
   \<and> \<not> list_ex (\<lambda>n. False)
          (nodes (build_graph (account_relationships (view ex_connection))))
   \<and> fst (update_network_metrics lib_const (\<lambda>n. False) hour_later_clock
            (snd (update_network_metrics lib_const (\<lambda>n. False) ex_clock ex_connection))) = None
   \<and> map_option metric_fields
        (metrics_row (committed (snd (update_network_metrics lib_const (\<lambda>n. False)
           hour_later_clock
           (snd (update_network_metrics lib_const (\<lambda>n. False) ex_clock ex_connection)))))
           ''C'')
      = map_option metric_fields
          (metrics_row (committed (snd (update_network_metrics lib_const (\<lambda>n. False) ex_clock
             ex_connection))) ''C'')"
proof -
  have ts: "pair_transfers ex_store ''A'' ''B''
      = [\<lparr> t_from_address = ''A'', t_to_address = ''B'', t_value = 1000000000000,
            t_timestamp = 8823600 \<rparr>,
          \<lparr> t_from_address = ''A'', t_to_address = ''B'', t_value = 5,
            t_timestamp = 8935200 \<rparr>,
          \<lparr> t_from_address = ''A'', t_to_address = ''B'', t_value = 7,
            t_timestamp = 9504000 \<rparr>]"
    by (simp add: pair_transfers_def ex_store_def)
  have d: "days_between (local_now ex_clock)
             (last_transfer (pair_transfers ex_store ''A'' ''B'')) = 1"
    "days_between (local_now hour_later_clock)
       (last_transfer (pair_transfers ex_store ''A'' ''B'')) = 1"
    unfolding ts
    by (simp_all add: days_between_def day_def last_transfer_def ex_clock_def
        hour_later_clock_def)
  have w: "transfers_since ex_clock 7 (pair_transfers ex_store ''A'' ''B'') = 1"
    "transfers_since hour_later_clock 7 (pair_transfers ex_store ''A'' ''B'') = 1"
    "transfers_since ex_clock 30 (pair_transfers ex_store ''A'' ''B'') = 3"
    "transfers_since hour_later_clock 30 (pair_transfers ex_store ''A'' ''B'') = 3"
    unfolding ts
    by (simp_all add: transfers_since_def day_def ex_clock_def hour_later_clock_def)
  have ok: "\<not> engine_fails lib_const (\<lambda>n. False) ex_connection"
    by (simp add: engine_fails_def ex_connection_def view_def build_graph_ex_store
        lib_const_def)
  have same: "same_answers lib_const lib_const
        (build_graph (account_relationships (view ex_connection)))"
    by (simp add: same_answers_def)
  have nf: "\<not> list_ex (\<lambda>n. False)
          (nodes (build_graph (account_relationships (view ex_connection))))"
    by (simp add: list_ex_iff)
  show ?thesis
    using recomputation_agreement [of ex_clock ex_store "''A''" "''B''" hour_later_clock
        lib_const "\<lambda>n. False" ex_connection lib_const "\<lambda>n. False"]
      d w ok same nf
    by simp
qed

end
